theory Spec2Isabelle
  imports Complex_Main "HOL-Library.Sublist"
begin

section \<open>The BitMart perpetual-futures adapter (utilities/bitmart\_perp.py)\<close>

text \<open>
  The adapter class \<open>PerpBitmart\<close> reshapes the answers of the connectivity library
  (ccxt) into flat records. The embedding below follows the Python source method by
  method. Exceptions are values of the type \<open>error\<close>; a method that can raise returns
  \<open>error + 'a\<close>, with \<open>Inl\<close> for the raised exception.
\<close>

subsection \<open>Strings\<close>

text \<open>
  Python's \<^verbatim>\<open>str.replace(old, new)\<close>: every non-overlapping occurrence of \<open>old\<close>,
  found from the left, is replaced. For the empty pattern Python puts \<open>new\<close> before
  every character and at the end.
\<close>

fun replace_str :: "string \<Rightarrow> string \<Rightarrow> string \<Rightarrow> string" where
  "replace_str [] new s = new @ concat (map (\<lambda>c. c # new) s)"
| "replace_str (p # ps) new [] = []"
| "replace_str (p # ps) new (c # cs) =
     (if prefix (p # ps) (c # cs)
      then new @ replace_str (p # ps) new (drop (length ps) cs)
      else c # replace_str (p # ps) new cs)"

text \<open>
  Python's \<^verbatim>\<open>str(n)\<close> and \<^verbatim>\<open>f"{n}"\<close> for an integer: decimal digits, with a
  minus sign for a negative number.
\<close>

definition digit_char :: "int \<Rightarrow> char" where
  "digit_char d = char_of (48 + d)"

function str_digits :: "int \<Rightarrow> string" where
  "str_digits n =
     (if n < 10 then [digit_char n] else str_digits (n div 10) @ [digit_char (n mod 10)])"
  by pat_completeness auto
termination
  by (relation "measure nat") auto

declare str_digits.simps [simp del]

definition str_int :: "int \<Rightarrow> string" where
  "str_int i = (if i < 0 then CHR ''-'' # str_digits (- i) else str_digits i)"

subsection \<open>Pair translation\<close>

text \<open>
  \<^verbatim>\<open>def ext_pair_to_pair(self, ext_pair): return f"{ext_pair}:USDT"\<close>

  \<^verbatim>\<open>def pair_to_ext_pair(self, pair): return pair.replace(":USDT", "")\<close>
\<close>

definition ext_pair_to_pair :: "string \<Rightarrow> string" where
  "ext_pair_to_pair ext_pair = ext_pair @ '':USDT''"

definition pair_to_ext_pair :: "string \<Rightarrow> string" where
  "pair_to_ext_pair pair = replace_str '':USDT'' '''' pair"

subsection \<open>Numbers\<close>

text \<open>
  The numbers of the exchange's answers are modelled by their exact values, as rationals.
  \<^verbatim>\<open>Decimal(x)\<close> converts a number exactly, and every arithmetic operation on
  \<^verbatim>\<open>Decimal\<close> values rounds its exact result to the precision of the context, half to
  even. The constructor of the adapter sets that precision for the whole process:
  \<^verbatim>\<open>getcontext().prec = 10\<close>.
  The exponent limits of the context (\<open>Emax = 999999\<close>) are out of reach of numbers that
  come from binary floating point and are not modelled. The last conversion of a field
  to binary floating point, which pydantic does when it builds a record, is not modelled
  either: a field holds the value that is handed to the record's constructor.
\<close>

definition round_half_even :: "rat \<Rightarrow> int" where
  "round_half_even x =
     (let f = \<lfloor>x\<rfloor>; r = x - of_int f
      in if r < 1 / 2 then f else if 1 / 2 < r then f + 1 else if even f then f else f + 1)"

text \<open>The number of decimal digits of a positive integer, less one.\<close>

function ilog10 :: "int \<Rightarrow> nat" where
  "ilog10 n = (if n < 10 then 0 else Suc (ilog10 (n div 10)))"
  by pat_completeness auto
termination
  by (relation "measure nat") auto

declare ilog10.simps [simp del]

text \<open>
  \<^verbatim>\<open>Decimal.adjusted()\<close>: the exponent of the most significant digit of a number
  other than zero, so that \<open>10 powi adjusted x \<le> \<bar>x\<bar> < 10 powi (adjusted x + 1)\<close>.
\<close>

definition adjusted :: "rat \<Rightarrow> int" where
  "adjusted x =
     (let a = \<bar>x\<bar>
      in if 1 \<le> a then int (ilog10 \<lfloor>a\<rfloor>)
         else - int (Suc (ilog10 (\<lceil>1 / a\<rceil> - 1))))"

definition prec :: nat where
  "prec = 10"

text \<open>Rounding to \<open>prec\<close> significant digits, as the context does after each operation.\<close>

definition decimal_round :: "rat \<Rightarrow> rat" where
  "decimal_round x =
     (if x = 0 then 0
      else let q = adjusted x - (int prec - 1)
           in of_int (round_half_even (x / 10 powi q)) * 10 powi q)"

subsection \<open>Exceptions\<close>

datatype error =
    ExchangeError string  \<comment> \<open>an exception raised by the connectivity library\<close>
  | PlainException string  \<comment> \<open>\<^verbatim>\<open>raise Exception(message)\<close>\<close>
  | IndexError
  | KeyError string
  | TypeError
  | AttributeError
  | DivisionByZero  \<comment> \<open>\<^verbatim>\<open>decimal.DivisionByZero\<close>: \<open>x / 0\<close> with \<open>x \<noteq> 0\<close>\<close>
  | DivisionUndefined  \<comment> \<open>\<open>0 / 0\<close>, raised as \<^verbatim>\<open>decimal.InvalidOperation\<close>\<close>

definition decimal_mul :: "rat \<Rightarrow> rat \<Rightarrow> rat" where
  "decimal_mul x y = decimal_round (x * y)"

definition decimal_div :: "rat \<Rightarrow> rat \<Rightarrow> error + rat" where
  "decimal_div x y =
     (if y = 0 then (if x = 0 then Inl DivisionUndefined else Inl DivisionByZero)
      else Inr (decimal_round (x / y)))"

text \<open>
  Python's \<^verbatim>\<open>round(x, ndigits)\<close> for \<open>ndigits \<ge> 0\<close>: the multiple of
  \<open>10 ^ -ndigits\<close> nearest to \<open>x\<close>, half to even.
\<close>

definition py_round :: "rat \<Rightarrow> nat \<Rightarrow> rat" where
  "py_round x ndigits = of_int (round_half_even (x * 10 ^ ndigits)) / 10 ^ ndigits"

subsection \<open>The normalized records\<close>

record UsdtBalance =
  bal_total :: rat
  bal_free :: rat
  bal_used :: rat

record Info =
  success :: bool
  message :: string

record Order =
  ord_id :: string
  ord_pair :: string
  ord_type :: string
  ord_side :: string
  ord_price :: rat
  ord_size :: rat
  ord_reduce :: bool
  ord_filled :: rat
  ord_remaining :: rat
  ord_timestamp :: int

record Position =
  pos_pair :: string
  pos_side :: string
  pos_size :: rat
  pos_usd_size :: rat
  pos_entry_price :: rat
  pos_current_price :: rat
  pos_unrealizedPnl :: rat
  pos_liquidation_price :: rat
  pos_margin_mode :: string
  pos_leverage :: rat
  pos_hedge_mode :: bool
  pos_open_timestamp :: int
  pos_take_profit_price :: rat
  pos_stop_loss_price :: rat

subsection \<open>The answers of the connectivity library\<close>

text \<open>An entry of \<^verbatim>\<open>resp["info"]["data"]\<close> in the answer to \<^verbatim>\<open>fetch_balance\<close>.\<close>

record balance_entry =
  currency :: string
  equity :: rat
  available_balance :: rat
  position_deposit :: rat

text \<open>
  A position as \<^verbatim>\<open>fetch_positions\<close> returns it. The fields that the adapter tests
  for truth before it reads them may be \<^verbatim>\<open>None\<close>.
\<close>

record raw_position =
  rp_symbol :: string
  rp_side :: string
  rp_contracts :: rat
  rp_contractSize :: rat
  rp_markPrice :: rat
  rp_entryPrice :: rat
  rp_unrealizedPnl :: rat
  rp_leverage :: rat
  rp_liquidationPrice :: "rat option"
  rp_takeProfitPrice :: "rat option"
  rp_stopLossPrice :: "rat option"
  rp_hedged :: "bool option"
  rp_info_margin_type :: string
  rp_info_open_timestamp :: int

text \<open>
  An order as \<^verbatim>\<open>create_order\<close> and \<^verbatim>\<open>fetch_order\<close> return it;
  \<open>ro_info_side\<close> is \<^verbatim>\<open>resp["info"]["side"]\<close>, the numeric side code of the exchange.
\<close>

record raw_order =
  ro_id :: string
  ro_symbol :: string
  ro_type :: string
  ro_side :: string
  ro_price :: rat
  ro_amount :: rat
  ro_filled :: rat
  ro_remaining :: rat
  ro_timestamp :: int
  ro_info_side :: int

text \<open>An entry of \<^verbatim>\<open>self.market\<close>, the market metadata of a pair.\<close>

record market_info =
  contractSize :: rat

text \<open>The keyword arguments of \<^verbatim>\<open>create_order\<close>.\<close>

record order_request =
  rq_symbol :: string
  rq_type :: string
  rq_side :: string
  rq_amount :: string
  rq_price :: rat
  rq_reduceOnly :: bool
  rq_marginMode :: string
  rq_leverage :: int

subsection \<open>Calls and their trace\<close>

text \<open>
  Every call of a method of \<^verbatim>\<open>self._session\<close>, with its arguments, and every
  \<^verbatim>\<open>print\<close>. A method of the adapter returns its result together with the calls it
  made, in order.
\<close>

datatype call =
    FetchBalance
  | SetLeverage int string string string
  | FetchPositions "string list"
  | AmountToPrecision string rat
  | CreateOrder order_request
  | FetchOrder string string
  | CancelOrders "string list" string bool
  | FetchOhlcv string string string string
  | Print error

type_synonym 'a result = "(error + 'a) \<times> call list"

definition return_value :: "'a \<Rightarrow> 'a result" where
  "return_value x = (Inr x, [])"

definition raise :: "error \<Rightarrow> 'a result" where
  "raise e = (Inl e, [])"

text \<open>A call of the connectivity library: its answer, and the call in the trace.\<close>

definition session_call :: "call \<Rightarrow> error + 'a \<Rightarrow> 'a result" where
  "session_call c answer = (answer, [c])"

text \<open>A value that may be an exception, without a call.\<close>

definition lift :: "error + 'a \<Rightarrow> 'a result" where
  "lift v = (v, [])"

text \<open>Sequencing: an exception ends the computation, the traces are joined.\<close>

definition and_then :: "'a result \<Rightarrow> ('a \<Rightarrow> 'b result) \<Rightarrow> 'b result" where
  "and_then m f =
     (case m of
        (Inl e, t) \<Rightarrow> (Inl e, t)
      | (Inr x, t) \<Rightarrow> (case f x of (r, t') \<Rightarrow> (r, t @ t')))"

text \<open>\<^verbatim>\<open>try: body  except Exception as e: handler(e)\<close>\<close>

definition try_except :: "'a result \<Rightarrow> (error \<Rightarrow> 'a result) \<Rightarrow> 'a result" where
  "try_except body handler =
     (case body of
        (Inl e, t) \<Rightarrow> (case handler e of (r, t') \<Rightarrow> (r, t @ t'))
      | (Inr x, t) \<Rightarrow> (Inr x, t))"

subsection \<open>The adapter\<close>

text \<open>
  An instance of \<^verbatim>\<open>PerpBitmart\<close>: \<open>market\<close> is \<^verbatim>\<open>self.market\<close>, absent until
  \<^verbatim>\<open>load_markets\<close> has run, and the fields \<open>session_\<close>\<open>m\<close> give the answer of the
  method \<open>m\<close> of \<^verbatim>\<open>self._session\<close> to each argument.
\<close>

record PerpBitmart =
  market :: "(string \<rightharpoonup> market_info) option"
  session_fetch_balance :: "error + balance_entry list"
  session_set_leverage :: "int \<Rightarrow> string \<Rightarrow> string \<Rightarrow> string \<Rightarrow> error + unit"
  session_fetch_positions :: "string list \<Rightarrow> error + raw_position list"
  session_amount_to_precision :: "string \<Rightarrow> rat \<Rightarrow> error + string"
  session_create_order :: "order_request \<Rightarrow> error + raw_order"
  session_fetch_order :: "string \<Rightarrow> string \<Rightarrow> error + raw_order"
  session_cancel_orders :: "string list \<Rightarrow> string \<Rightarrow> bool \<Rightarrow> error + raw_order list"

text \<open>
  \<^verbatim>\<open>get_pair_info\<close>: the entry of the market table, or \<^verbatim>\<open>None\<close>. Reading
  \<^verbatim>\<open>self.market\<close> before \<^verbatim>\<open>load_markets\<close> is an \<^verbatim>\<open>AttributeError\<close>.
\<close>

definition get_pair_info :: "PerpBitmart \<Rightarrow> string \<Rightarrow> error + market_info option" where
  "get_pair_info self ext_pair =
     (let pair = ext_pair_to_pair ext_pair
      in case market self of
           None \<Rightarrow> Inl AttributeError
         | Some m \<Rightarrow> Inr (m pair))"

text \<open>
  \<^verbatim>\<open>(self.get_pair_info(pair))["contractSize"]\<close>: subscripting \<^verbatim>\<open>None\<close> is a
  \<^verbatim>\<open>TypeError\<close>.
\<close>

definition pair_contract_size :: "PerpBitmart \<Rightarrow> string \<Rightarrow> error + rat" where
  "pair_contract_size self ext_pair =
     (case get_pair_info self ext_pair of
        Inl e \<Rightarrow> Inl e
      | Inr None \<Rightarrow> Inl TypeError
      | Inr (Some info) \<Rightarrow> Inr (contractSize info))"

subsection \<open>Balance\<close>

text \<open>
  \<^verbatim>\<open>usdt_data = [r for r in resp_data if r["currency"] == "USDT"][0]\<close>: indexing the
  empty list is an \<^verbatim>\<open>IndexError\<close>.
\<close>

definition get_balance :: "PerpBitmart \<Rightarrow> UsdtBalance result" where
  "get_balance self =
     and_then (session_call FetchBalance (session_fetch_balance self)) (\<lambda>resp_data.
       case filter (\<lambda>r. currency r = ''USDT'') resp_data of
         [] \<Rightarrow> raise IndexError
       | usdt_data # _ \<Rightarrow>
           return_value
             \<lparr>bal_total = equity usdt_data,
              bal_free = available_balance usdt_data,
              bal_used = position_deposit usdt_data\<rparr>)"

subsection \<open>Margin mode and leverage\<close>

definition margin_mode_message :: string where
  "margin_mode_message =
     ''Margin mode must be either '' @ [CHR 0x27] @ ''cross'' @ [CHR 0x27] @ '' or '' @
     [CHR 0x27] @ ''isolated'' @ [CHR 0x27]"

text \<open>
  The handler \<^verbatim>\<open>except Exception as e: raise e\<close> raises the exception it caught.
\<close>

definition set_margin_mode_and_leverage ::
    "PerpBitmart \<Rightarrow> string \<Rightarrow> string \<Rightarrow> int \<Rightarrow> Info result" where
  "set_margin_mode_and_leverage self ext_pair margin_mode leverage =
     (if margin_mode \<notin> set [''cross'', ''isolated'']
      then raise (PlainException margin_mode_message)
      else
        let pair = ext_pair_to_pair ext_pair
        in and_then
             (try_except
                (session_call (SetLeverage leverage pair margin_mode margin_mode)
                   (session_set_leverage self leverage pair margin_mode margin_mode))
                (\<lambda>e. raise e))
             (\<lambda>_. return_value
                \<lparr>success = True,
                 message = ''Margin mode and leverage set to '' @ margin_mode @ '' and '' @
                   str_int leverage @ ''x''\<rparr>))"

subsection \<open>Positions\<close>

text \<open>
  \<^verbatim>\<open>x = 0;  if position[k]: x = position[k]\<close>: a missing or zero value leaves the
  default.
\<close>

definition value_or_zero :: "rat option \<Rightarrow> rat" where
  "value_or_zero v = (case v of None \<Rightarrow> 0 | Some x \<Rightarrow> (if x \<noteq> 0 then x else 0))"

text \<open>
  The body of the loop of \<^verbatim>\<open>get_open_positions\<close>: the record built from one raw
  position. The division that gives \<open>current_price\<close> is the one step that can raise.
\<close>

definition normalize_position :: "raw_position \<Rightarrow> error + Position" where
  "normalize_position position =
     (let liquidation_price = value_or_zero (rp_liquidationPrice position);
          take_profit_price = value_or_zero (rp_takeProfitPrice position);
          stop_loss_price = value_or_zero (rp_stopLossPrice position);
          hedge_mode = (rp_hedged position = Some True)
      in case decimal_div (rp_markPrice position)
                (decimal_mul (rp_contracts position) (rp_contractSize position)) of
           Inl e \<Rightarrow> Inl e
         | Inr current_price \<Rightarrow>
             Inr \<lparr>pos_pair = pair_to_ext_pair (rp_symbol position),
                  pos_side = rp_side position,
                  pos_size = decimal_mul (rp_contracts position) (rp_contractSize position),
                  pos_usd_size = py_round (rp_markPrice position) 2,
                  pos_entry_price = rp_entryPrice position,
                  pos_current_price = current_price,
                  pos_unrealizedPnl = rp_unrealizedPnl position,
                  pos_liquidation_price = liquidation_price,
                  pos_margin_mode = rp_info_margin_type position,
                  pos_leverage = rp_leverage position,
                  pos_hedge_mode = hedge_mode,
                  pos_open_timestamp = rp_info_open_timestamp position,
                  pos_take_profit_price = take_profit_price,
                  pos_stop_loss_price = stop_loss_price\<rparr>)"

text \<open>
  \<^verbatim>\<open>for position in resp: return_positions.append(Position(...))\<close>: an exception
  in the body ends the method, and nothing is returned.
\<close>

fun positions_loop :: "raw_position list \<Rightarrow> Position list \<Rightarrow> error + Position list" where
  "positions_loop [] return_positions = Inr return_positions"
| "positions_loop (position # resp) return_positions =
     (case normalize_position position of
        Inl e \<Rightarrow> Inl e
      | Inr p \<Rightarrow> positions_loop resp (return_positions @ [p]))"

definition get_open_positions :: "PerpBitmart \<Rightarrow> string list \<Rightarrow> Position list result" where
  "get_open_positions self ext_pairs =
     (let pairs = map ext_pair_to_pair ext_pairs
      in and_then (session_call (FetchPositions pairs) (session_fetch_positions self pairs))
           (\<lambda>resp. lift (positions_loop resp [])))"

subsection \<open>Orders\<close>

definition get_order_by_id :: "PerpBitmart \<Rightarrow> string \<Rightarrow> string \<Rightarrow> Order result" where
  "get_order_by_id self order_id ext_pair =
     and_then (lift (pair_contract_size self ext_pair)) (\<lambda>contract_size.
       let pair = ext_pair_to_pair ext_pair
       in and_then (session_call (FetchOrder order_id pair) (session_fetch_order self order_id pair))
            (\<lambda>resp.
               let reduce = (ro_info_side resp \<in> set [2, 3])
               in return_value
                    \<lparr>ord_id = ro_id resp,
                     ord_pair = pair_to_ext_pair (ro_symbol resp),
                     ord_type = ro_type resp,
                     ord_side = ro_side resp,
                     ord_price = ro_price resp,
                     ord_size = decimal_mul (ro_amount resp) contract_size,
                     ord_reduce = reduce,
                     ord_filled = decimal_mul (ro_filled resp) contract_size,
                     ord_remaining = decimal_mul (ro_remaining resp) contract_size,
                     ord_timestamp = ro_timestamp resp\<rparr>))"

text \<open>
  The body of the \<^verbatim>\<open>try\<close> block of \<^verbatim>\<open>place_order\<close>: the requested size in
  contracts, the creation, and the lookup of the created order by its id.
\<close>

definition place_order_body ::
    "PerpBitmart \<Rightarrow> string \<Rightarrow> string \<Rightarrow> rat \<Rightarrow> rat \<Rightarrow> string \<Rightarrow> bool \<Rightarrow> string \<Rightarrow> int \<Rightarrow>
     Order option result" where
  "place_order_body self ext_pair side price order_size order_type reduce margin_mode leverage =
     and_then (lift (pair_contract_size self ext_pair)) (\<lambda>contract_size.
       let pair = ext_pair_to_pair ext_pair
       in and_then (lift (decimal_div order_size contract_size)) (\<lambda>contracts.
            and_then (session_call (AmountToPrecision pair contracts)
                        (session_amount_to_precision self pair contracts)) (\<lambda>amount.
              let request =
                    \<lparr>rq_symbol = pair, rq_type = order_type, rq_side = side, rq_amount = amount,
                     rq_price = price, rq_reduceOnly = reduce, rq_marginMode = margin_mode,
                     rq_leverage = leverage\<rparr>
              in and_then (session_call (CreateOrder request) (session_create_order self request))
                   (\<lambda>resp.
                      let order_id = ro_id resp;
                          pair = pair_to_ext_pair (ro_symbol resp)
                      in and_then (get_order_by_id self order_id pair)
                           (\<lambda>order. return_value (Some order))))))"

text \<open>
  \<^verbatim>\<open>except Exception as e: if error: raise e  else: print(e); return None\<close>
\<close>

definition place_order ::
    "PerpBitmart \<Rightarrow> string \<Rightarrow> string \<Rightarrow> rat \<Rightarrow> rat \<Rightarrow> string \<Rightarrow> bool \<Rightarrow> string \<Rightarrow> int \<Rightarrow> bool \<Rightarrow>
     Order option result" where
  "place_order self ext_pair side price order_size order_type reduce margin_mode leverage error =
     try_except
       (place_order_body self ext_pair side price order_size order_type reduce margin_mode leverage)
       (\<lambda>e. if error then raise e
            else and_then (session_call (Print e) (Inr ())) (\<lambda>_. return_value None))"

definition cancel_orders :: "PerpBitmart \<Rightarrow> string \<Rightarrow> string list \<Rightarrow> Info result" where
  "cancel_orders self ext_pair ids =
     try_except
       (let pair = ext_pair_to_pair ext_pair
        in and_then (session_call (CancelOrders ids pair False)
                       (session_cancel_orders self ids pair False))
             (\<lambda>resp. return_value
                \<lparr>success = True,
                 message = str_int (int (length resp)) @ '' Orders cancelled''\<rparr>))
       (\<lambda>e. return_value \<lparr>success = False, message = ''Error or no orders to cancel''\<rparr>)"

definition cancel_trigger_orders :: "PerpBitmart \<Rightarrow> string \<Rightarrow> string list \<Rightarrow> Info result" where
  "cancel_trigger_orders self ext_pair ids =
     try_except
       (let pair = ext_pair_to_pair ext_pair
        in and_then (session_call (CancelOrders ids pair True)
                       (session_cancel_orders self ids pair True))
             (\<lambda>resp. return_value
                \<lparr>success = True,
                 message = str_int (int (length resp)) @ '' Trigger Orders cancelled''\<rparr>))
       (\<lambda>e. return_value \<lparr>success = False, message = ''Error or no orders to cancel''\<rparr>)"

subsection \<open>Candle windows\<close>










subsection \<open>Example inputs\<close>

text \<open>An adapter with one market and fixed answers, for the concrete instances below.\<close>

definition example_market :: "string \<rightharpoonup> market_info" where
  "example_market = [''BTC-USDT:USDT'' \<mapsto> \<lparr>contractSize = 1 / 1000\<rparr>]"

definition example_order :: raw_order where
  "example_order =
     \<lparr>ro_id = ''42'', ro_symbol = ''BTC-USDT:USDT'', ro_type = ''limit'', ro_side = ''buy'',
      ro_price = 50000, ro_amount = 5, ro_filled = 2, ro_remaining = 3,
      ro_timestamp = 1700000000000, ro_info_side = 1\<rparr>"

definition example_adapter :: PerpBitmart where
  "example_adapter =
     \<lparr>market = Some example_market,
      session_fetch_balance =
        Inr [\<lparr>currency = ''BTC'', equity = 1, available_balance = 1, position_deposit = 0\<rparr>,
             \<lparr>currency = ''USDT'', equity = 1000, available_balance = 600, position_deposit = 400\<rparr>],
      session_set_leverage = (\<lambda>leverage pair open_type margin_mode. Inr ()),
      session_fetch_positions = (\<lambda>pairs. Inr []),
      session_amount_to_precision = (\<lambda>pair amount. Inr ''5''),
      session_create_order = (\<lambda>request. Inr example_order),
      session_fetch_order = (\<lambda>order_id pair. Inr example_order),
      session_cancel_orders = (\<lambda>ids pair stop. Inr [example_order])\<rparr>"

definition example_position :: raw_position where
  "example_position =
     \<lparr>rp_symbol = ''BTC-USDT:USDT'', rp_side = ''long'', rp_contracts = 5,
      rp_contractSize = 1 / 1000, rp_markPrice = 250126 / 1000, rp_entryPrice = 49000,
      rp_unrealizedPnl = 5, rp_leverage = 3, rp_liquidationPrice = Some 40000,
      rp_takeProfitPrice = None, rp_stopLossPrice = Some 0, rp_hedged = None,
      rp_info_margin_type = ''cross'', rp_info_open_timestamp = 1700000000000\<rparr>"

definition example_position_normalized :: Position where
  "example_position_normalized =
     \<lparr>pos_pair = ''BTC-USDT'', pos_side = ''long'', pos_size = 1 / 200,
      pos_usd_size = 25013 / 100, pos_entry_price = 49000, pos_current_price = 500252 / 10,
      pos_unrealizedPnl = 5, pos_liquidation_price = 40000, pos_margin_mode = ''cross'',
      pos_leverage = 3, pos_hedge_mode = False, pos_open_timestamp = 1700000000000,
      pos_take_profit_price = 0, pos_stop_loss_price = 0\<rparr>"

section \<open>Properties\<close>

subsection \<open>Rounding\<close>

lemma round_half_even_err: "\<bar>of_int (round_half_even x) - x\<bar> \<le> 1 / 2"
proof -
  have "of_int \<lfloor>x\<rfloor> \<le> x" "x < of_int \<lfloor>x\<rfloor> + 1"
    by linarith+
  then show ?thesis
    unfolding round_half_even_def Let_def by (auto simp: abs_le_iff)
qed

lemma ilog10_bounds: "0 < n \<Longrightarrow> 10 ^ ilog10 n \<le> n \<and> n < 10 ^ Suc (ilog10 n)"
proof (induction n rule: ilog10.induct)
  case (1 n)
  show ?case
  proof (cases "n < 10")
    case True
    with 1(2) show ?thesis by (simp add: ilog10.simps [of n])
  next
    case False
    then have "0 < n div 10" by simp
    with 1(1) False have ih: "10 ^ ilog10 (n div 10) \<le> n div 10" "n div 10 < 10 ^ Suc (ilog10 (n div 10))"
      by simp_all
    have eq: "ilog10 n = Suc (ilog10 (n div 10))"
      using False by (simp add: ilog10.simps [of n])
    from ih show ?thesis unfolding eq by simp linarith
  qed
qed

lemma adjusted_bounds:
  assumes "x \<noteq> 0"
  shows "10 powi adjusted x \<le> \<bar>x\<bar>" and "\<bar>x\<bar> < 10 powi (adjusted x + 1)"
proof -
  define a where "a = \<bar>x\<bar>"
  have apos: "0 < a" using assms by (simp add: a_def)
  have "10 powi adjusted x \<le> a \<and> a < 10 powi (adjusted x + 1)"
  proof (cases "1 \<le> a")
    case True
    define n where "n = \<lfloor>a\<rfloor>"
    have npos: "0 < n" using True by (simp add: n_def)
    have adj: "adjusted x = int (ilog10 n)"
      using True by (simp add: adjusted_def a_def n_def Let_def)
    from ilog10_bounds [OF npos]
    have b: "10 ^ ilog10 n \<le> n" "n + 1 \<le> 10 ^ Suc (ilog10 n)" by simp_all
    have "rat_of_int (10 ^ ilog10 n) \<le> rat_of_int n" using b(1) by (simp only: of_int_le_iff)
    then have "(10::rat) ^ ilog10 n \<le> rat_of_int n" by simp
    also have "rat_of_int n \<le> a" by (simp add: n_def)
    finally have lo: "(10::rat) ^ ilog10 n \<le> a" .
    have "rat_of_int (n + 1) \<le> rat_of_int (10 ^ Suc (ilog10 n))"
      using b(2) by (simp only: of_int_le_iff)
    then have "rat_of_int (n + 1) \<le> (10::rat) ^ Suc (ilog10 n)" by simp
    moreover have "a < rat_of_int (n + 1)" unfolding n_def by linarith
    ultimately have hi: "a < (10::rat) ^ Suc (ilog10 n)" by (rule less_le_trans [rotated])
    have "adjusted x + 1 = int (Suc (ilog10 n))" by (simp add: adj)
    then have "(10::rat) powi (adjusted x + 1) = 10 ^ Suc (ilog10 n)"
      by (simp only: power_int_of_nat)
    with lo hi show ?thesis by (simp add: adj)
  next
    case False
    define y where "y = 1 / a"
    have y1: "1 < y" using False apos by (simp add: y_def)
    define n where "n = \<lceil>y\<rceil> - 1"
    have npos: "0 < n" using y1 unfolding n_def by linarith
    define k where "k = ilog10 n"
    have adj: "adjusted x = - int (Suc k)"
      using False by (simp add: adjusted_def a_def [symmetric] y_def n_def k_def Let_def)
    from ilog10_bounds [OF npos]
    have b: "10 ^ k \<le> n" "n + 1 \<le> 10 ^ Suc k" by (simp_all add: k_def)
    have "rat_of_int (10 ^ k) \<le> rat_of_int n" using b(1) by (simp only: of_int_le_iff)
    then have "(10::rat) ^ k \<le> rat_of_int n" by simp
    also have "rat_of_int n < y" unfolding n_def by linarith
    finally have lo: "(10::rat) ^ k < y" .
    have "rat_of_int (n + 1) \<le> rat_of_int (10 ^ Suc k)"
      using b(2) by (simp only: of_int_le_iff)
    then have "rat_of_int (n + 1) \<le> (10::rat) ^ Suc k" by simp
    moreover have "y \<le> rat_of_int (n + 1)" unfolding n_def by (simp add: le_of_int_ceiling)
    ultimately have hi: "y \<le> (10::rat) ^ Suc k" by (rule order_trans [rotated])
    have a_eq: "a = 1 / y" using apos by (simp add: y_def)
    have ypos: "0 < y" using y1 by simp
    have p1: "(10::rat) powi (adjusted x) = 1 / 10 ^ Suc k"
      unfolding adj by (simp only: power_int_minus_divide power_int_of_nat)
    have "adjusted x + 1 = - int k" by (simp add: adj)
    then have p2: "(10::rat) powi (adjusted x + 1) = 1 / 10 ^ k"
      by (simp only: power_int_minus_divide power_int_of_nat)
    have "1 / (10::rat) ^ Suc k \<le> 1 / y"
      using hi ypos by (intro divide_left_mono) simp_all
    moreover have "1 / y < 1 / (10::rat) ^ k"
      using lo ypos by (intro divide_strict_left_mono) simp_all
    ultimately show ?thesis unfolding p1 p2 a_eq by simp
  qed
  then show "10 powi adjusted x \<le> \<bar>x\<bar>" and "\<bar>x\<bar> < 10 powi (adjusted x + 1)"
    by (simp_all add: a_def)
qed

lemma decimal_round_err: "\<bar>decimal_round x - x\<bar> \<le> \<bar>x\<bar> / (2 * 10 ^ 9)"
proof (cases "x = 0")
  case True
  then show ?thesis by (simp add: decimal_round_def)
next
  case False
  define q where "q = adjusted x - 9"
  define s :: rat where "s = 10 powi q"
  have spos: "0 < s" by (simp add: s_def)
  have dr: "decimal_round x = of_int (round_half_even (x / s)) * s"
    using False by (simp add: decimal_round_def prec_def q_def s_def Let_def)
  have "\<bar>of_int (round_half_even (x / s)) - x / s\<bar> * s \<le> (1 / 2) * s"
    using round_half_even_err [of "x / s"] spos by (intro mult_right_mono) simp_all
  moreover have "\<bar>of_int (round_half_even (x / s)) - x / s\<bar> * s =
      \<bar>of_int (round_half_even (x / s)) * s - x\<bar>"
  proof -
    have "\<bar>of_int (round_half_even (x / s)) - x / s\<bar> * s =
          \<bar>(of_int (round_half_even (x / s)) - x / s) * s\<bar>"
      using spos by (simp add: abs_mult)
    also have "(of_int (round_half_even (x / s)) - x / s) * s =
               of_int (round_half_even (x / s)) * s - x"
      using spos by (simp add: algebra_simps)
    finally show ?thesis .
  qed
  ultimately have e1: "\<bar>decimal_round x - x\<bar> \<le> s / 2" by (simp add: dr)
  have "adjusted x = q + 9" by (simp add: q_def)
  then have "(10::rat) powi adjusted x = s * 10 ^ 9"
    by (simp add: s_def power_int_add)
  with adjusted_bounds(1) [OF False] have "s * 10 ^ 9 \<le> \<bar>x\<bar>" by simp
  then have "s \<le> \<bar>x\<bar> / 10 ^ 9" by (simp add: pos_le_divide_eq)
  with e1 show ?thesis by simp
qed

lemma decimal_round_eq_0_iff: "decimal_round x = 0 \<longleftrightarrow> x = 0"
proof
  assume z: "decimal_round x = 0"
  show "x = 0"
  proof (rule ccontr)
    assume nz: "x \<noteq> 0"
    from decimal_round_err [of x] z have "\<bar>x\<bar> \<le> \<bar>x\<bar> / (2 * 10 ^ 9)" by simp
    moreover have "\<bar>x\<bar> / (2 * 10 ^ 9) < \<bar>x\<bar>" using nz by simp
    ultimately show False by simp
  qed
next
  assume "x = 0"
  then show "decimal_round x = 0" by (simp add: decimal_round_def)
qed

subsection \<open>Results and traces\<close>

lemma fst_and_then:
  "fst (and_then m f) = (case fst m of Inl e \<Rightarrow> Inl e | Inr x \<Rightarrow> fst (f x))"
  by (cases m) (auto simp: and_then_def split: sum.splits prod.splits)

lemma fst_try_except:
  "fst (try_except body handler) = (case fst body of Inl e \<Rightarrow> fst (handler e) | Inr x \<Rightarrow> Inr x)"
  by (cases body) (auto simp: try_except_def split: sum.splits prod.splits)

lemma fst_simps [simp]:
  "fst (return_value x) = Inr x" "fst (raise e) = Inl e" "fst (session_call c v) = v" "fst (lift v) = v"
  by (simp_all add: return_value_def raise_def session_call_def lift_def)

subsection \<open>Pair round trip\<close>

lemma prefix_usdt_append:
  assumes "q \<noteq> []" and "\<not> prefix '':USDT'' q"
  shows "\<not> prefix '':USDT'' (q @ '':USDT'')"
proof (cases q)
  case Nil
  with assms show ?thesis by simp
next
  case q1: (Cons a q')
  show ?thesis
  proof (cases q')
    case Nil
    with q1 show ?thesis by simp
  next
    case q2: (Cons b q'')
    show ?thesis
    proof (cases q'')
      case Nil
      with q1 q2 show ?thesis by simp
    next
      case q3: (Cons c q''')
      show ?thesis
      proof (cases q''')
        case Nil
        with q1 q2 q3 show ?thesis by simp
      next
        case q4: (Cons d q'''')
        show ?thesis
        proof (cases q'''')
          case Nil
          with q1 q2 q3 q4 show ?thesis by simp
        next
          case (Cons e r)
          with q1 q2 q3 q4 assms show ?thesis by simp
        qed
      qed
    qed
  qed
qed

lemma replace_usdt_suffix:
  "\<not> sublist '':USDT'' p \<Longrightarrow> replace_str '':USDT'' '''' (p @ '':USDT'') = p"
proof (induction p)
  case Nil
  show ?case by simp
next
  case (Cons c cs)
  have np: "\<not> prefix '':USDT'' (c # cs)"
    using Cons.prems by (auto simp: sublist_Cons_right)
  then have "\<not> prefix '':USDT'' ((c # cs) @ '':USDT'')"
    by (intro prefix_usdt_append) simp_all
  then have ns: "prefix '':USDT'' (c # (cs @ '':USDT'')) = False"
    by simp
  have "\<not> sublist '':USDT'' cs"
    using Cons.prems by (auto simp: sublist_Cons_right)
  then have ih: "replace_str '':USDT'' '''' (cs @ '':USDT'') = cs"
    by (rule Cons.IH)
  have "replace_str '':USDT'' '''' (c # (cs @ '':USDT'')) =
        c # replace_str '':USDT'' '''' (cs @ '':USDT'')"
    by (simp only: replace_str.simps ns if_False)
  with ih show ?case by simp
qed

text \<open>
  C4. For every well-formed external pair string \<open>p\<close>, one that does not already
  contain the suffix text \<open>:USDT\<close> that the internal form adds (such as \<open>BTC-USDT\<close>),
  converting to the internal form and back is the identity:
  \<open>pair_to_ext_pair (ext_pair_to_pair p) = p\<close>.
\<close>

theorem pair_round_trip:
  "\<not> sublist '':USDT'' p \<Longrightarrow> pair_to_ext_pair (ext_pair_to_pair p) = p"
  by (simp add: pair_to_ext_pair_def ext_pair_to_pair_def replace_usdt_suffix)

theorem pair_round_trip_witness:
  "\<not> sublist '':USDT'' ''BTC-USDT'' \<and> pair_to_ext_pair (ext_pair_to_pair ''BTC-USDT'') = ''BTC-USDT''"
proof -
  have h: "\<not> sublist '':USDT'' ''BTC-USDT''"
    by (simp add: sublist_Cons_right)
  show ?thesis using h pair_round_trip [OF h] by simp
qed

subsection \<open>Balance\<close>

text \<open>
  C5. When the raw balance payload contains a USDT entry, \<open>get_balance\<close> returns the
  record whose \<open>total\<close>, \<open>free\<close> and \<open>used\<close> are the \<open>equity\<close>,
  \<open>available_balance\<close> and \<open>position_deposit\<close> of that entry (the first one, should
  there be several); when the payload contains no USDT entry, \<open>get_balance\<close> fails with
  an \<open>IndexError\<close>.
\<close>

theorem get_balance_mapping:
  assumes "session_fetch_balance self = Inr resp_data"
  shows "(find (\<lambda>r. currency r = ''USDT'') resp_data = Some usdt_data \<longrightarrow>
            fst (get_balance self) =
              Inr \<lparr>bal_total = equity usdt_data, bal_free = available_balance usdt_data,
                   bal_used = position_deposit usdt_data\<rparr>) \<and>
         ((\<forall>r \<in> set resp_data. currency r \<noteq> ''USDT'') \<longrightarrow>
            fst (get_balance self) = Inl IndexError)"
proof (intro conjI impI)
  assume "find (\<lambda>r. currency r = ''USDT'') resp_data = Some usdt_data"
  then obtain rest where "filter (\<lambda>r. currency r = ''USDT'') resp_data = usdt_data # rest"
    by (induction resp_data) (auto split: if_splits)
  with assms show "fst (get_balance self) =
      Inr \<lparr>bal_total = equity usdt_data, bal_free = available_balance usdt_data,
           bal_used = position_deposit usdt_data\<rparr>"
    by (simp add: get_balance_def fst_and_then)
next
  assume "\<forall>r \<in> set resp_data. currency r \<noteq> ''USDT''"
  then have "filter (\<lambda>r. currency r = ''USDT'') resp_data = []"
    by (simp add: filter_empty_conv)
  with assms show "fst (get_balance self) = Inl IndexError"
    by (simp add: get_balance_def fst_and_then)
qed

theorem get_balance_mapping_witness:
  "fst (get_balance example_adapter) = Inr \<lparr>bal_total = 1000, bal_free = 600, bal_used = 400\<rparr> \<and>
   fst (get_balance (example_adapter\<lparr>session_fetch_balance := Inr []\<rparr>)) = Inl IndexError"
proof -
  have a: "session_fetch_balance example_adapter =
      Inr [\<lparr>currency = ''BTC'', equity = 1, available_balance = 1, position_deposit = 0\<rparr>,
           \<lparr>currency = ''USDT'', equity = 1000, available_balance = 600, position_deposit = 400\<rparr>]"
    by (simp add: example_adapter_def)
  have b: "session_fetch_balance (example_adapter\<lparr>session_fetch_balance := Inr []\<rparr>) = Inr []"
    by simp
  from get_balance_mapping [OF a, of "\<lparr>currency = ''USDT'', equity = 1000, available_balance = 600, position_deposit = 400\<rparr>"]
       get_balance_mapping [OF b]
  show ?thesis by simp
qed

subsection \<open>Margin mode and leverage\<close>

text \<open>
  C6. For a margin mode other than \<open>cross\<close> and \<open>isolated\<close>,
  \<open>set_margin_mode_and_leverage\<close> raises its validation exception and the trace of calls
  is empty: no call of the connectivity library has been made. For \<open>cross\<close> and
  \<open>isolated\<close>, an exception of \<open>set_leverage\<close> is the exception of the method.
\<close>

theorem set_margin_mode_and_leverage_validation:
  "(margin_mode \<notin> {''cross'', ''isolated''} \<longrightarrow>
      set_margin_mode_and_leverage self ext_pair margin_mode leverage =
        (Inl (PlainException margin_mode_message), [])) \<and>
   (margin_mode \<in> {''cross'', ''isolated''} \<and>
    session_set_leverage self leverage (ext_pair_to_pair ext_pair) margin_mode margin_mode = Inl e \<longrightarrow>
      fst (set_margin_mode_and_leverage self ext_pair margin_mode leverage) = Inl e)"
  by (auto simp: set_margin_mode_and_leverage_def raise_def Let_def fst_and_then fst_try_except)

theorem set_margin_mode_and_leverage_validation_witness:
  "set_margin_mode_and_leverage example_adapter ''BTC-USDT'' ''bogus'' 5 =
     (Inl (PlainException margin_mode_message), []) \<and>
   fst (set_margin_mode_and_leverage
          (example_adapter\<lparr>session_set_leverage := (\<lambda>l p t m. Inl (ExchangeError ''timeout''))\<rparr>)
          ''BTC-USDT'' ''cross'' 5) = Inl (ExchangeError ''timeout'')"
  using set_margin_mode_and_leverage_validation
      [where margin_mode = "''bogus''" and self = example_adapter and ext_pair = "''BTC-USDT''"
         and leverage = 5]
    set_margin_mode_and_leverage_validation
      [where margin_mode = "''cross''" and ext_pair = "''BTC-USDT''" and leverage = 5
         and self = "example_adapter\<lparr>session_set_leverage := (\<lambda>l p t m. Inl (ExchangeError ''timeout''))\<rparr>"
         and e = "ExchangeError ''timeout''"]
  by simp

subsection \<open>Cancellation\<close>

text \<open>
  C7. \<open>cancel_orders\<close> and \<open>cancel_trigger_orders\<close> never raise. When the call of
  the connectivity library fails, whatever the exception, the result is the record with
  \<open>success = False\<close> and the fixed message; when it succeeds, the result is a record
  with \<open>success = True\<close>.
\<close>

theorem cancel_orders_never_raise:
  "(case session_cancel_orders self ids (ext_pair_to_pair ext_pair) False of
      Inl e \<Rightarrow> fst (cancel_orders self ext_pair ids) =
                 Inr \<lparr>success = False, message = ''Error or no orders to cancel''\<rparr>
    | Inr resp \<Rightarrow> fst (cancel_orders self ext_pair ids) =
                 Inr \<lparr>success = True, message = str_int (int (length resp)) @ '' Orders cancelled''\<rparr>) \<and>
   (case session_cancel_orders self ids (ext_pair_to_pair ext_pair) True of
      Inl e \<Rightarrow> fst (cancel_trigger_orders self ext_pair ids) =
                 Inr \<lparr>success = False, message = ''Error or no orders to cancel''\<rparr>
    | Inr resp \<Rightarrow> fst (cancel_trigger_orders self ext_pair ids) =
                 Inr \<lparr>success = True,
                      message = str_int (int (length resp)) @ '' Trigger Orders cancelled''\<rparr>)"
  by (simp add: cancel_orders_def cancel_trigger_orders_def Let_def fst_and_then fst_try_except
      split: sum.splits)

theorem cancel_orders_never_raise_witness:
  "fst (cancel_orders example_adapter ''BTC-USDT'' [''42'']) =
     Inr \<lparr>success = True, message = ''1 Orders cancelled''\<rparr> \<and>
   fst (cancel_trigger_orders
          (example_adapter\<lparr>session_cancel_orders := (\<lambda>ids pair stop. Inl (ExchangeError ''timeout''))\<rparr>)
          ''BTC-USDT'' [''42'']) =
     Inr \<lparr>success = False, message = ''Error or no orders to cancel''\<rparr>"
proof -
  have s: "str_int 1 = ''1''" by code_simp
  show ?thesis
    using cancel_orders_never_raise
        [where self = example_adapter and ids = "[''42'']" and ext_pair = "''BTC-USDT''"]
      cancel_orders_never_raise
        [where self = "example_adapter\<lparr>session_cancel_orders := (\<lambda>ids pair stop. Inl (ExchangeError ''timeout''))\<rparr>"
           and ids = "[''42'']" and ext_pair = "''BTC-USDT''"]
    by (simp add: example_adapter_def s)
qed

subsection \<open>Positions\<close>

lemma quotient_error:
  fixes P P' m C :: rat
  assumes P: "P \<noteq> 0"
    and e1: "\<bar>P' - P\<bar> \<le> \<bar>P\<bar> / (2 * 10 ^ 9)"
    and e2: "\<bar>C - m / P'\<bar> \<le> \<bar>m / P'\<bar> / (2 * 10 ^ 9)"
  shows "\<bar>C - m / P\<bar> \<le> \<bar>m / P\<bar> * (11 / 10 ^ 10)"
proof -
  have Ppos: "0 < \<bar>P\<bar>" using P by simp
  have e1': "\<bar>P' - P\<bar> \<le> \<bar>P\<bar> / 2000000000" using e1 by simp
  have "\<bar>P\<bar> - \<bar>P'\<bar> \<le> \<bar>P' - P\<bar>"
    using abs_triangle_ineq2 [of P P'] by (simp add: abs_minus_commute)
  with e1' have lo: "\<bar>P\<bar> - \<bar>P\<bar> / 2000000000 \<le> \<bar>P'\<bar>"
    by linarith
  with Ppos have P'pos: "0 < \<bar>P'\<bar>"
    by linarith
  then have P': "P' \<noteq> 0" by simp
  define p where "p = \<bar>P\<bar>"
  define p' where "p' = \<bar>P'\<bar>"
  define \<mu> where "\<mu> = \<bar>m\<bar>"
  have pp: "0 < p" "0 < p'" "0 \<le> \<mu>" "p * (1999999999 / 2000000000) \<le> p'"
    using Ppos P'pos lo by (simp_all add: p_def p'_def \<mu>_def)
  have "m / P' - m / P = m * (P - P') / (P * P')"
    using P P' by (simp add: field_simps)
  then have "\<bar>m / P' - m / P\<bar> = \<bar>m * (P - P') / (P * P')\<bar>"
    by (rule arg_cong)
  also have "\<dots> = \<mu> * \<bar>P' - P\<bar> / (p * p')"
    by (simp only: abs_mult abs_divide abs_minus_commute [of P P'] p_def p'_def \<mu>_def)
  also have "\<dots> \<le> \<mu> * (p / 2000000000) / (p * p')"
    using e1' pp unfolding p_def [symmetric]
    by (intro divide_right_mono mult_left_mono) simp_all
  also have "\<dots> = (\<mu> / p') / 2000000000"
    using pp by simp
  finally have d0: "\<bar>m / P' - m / P\<bar> \<le> (\<mu> / p') / 2000000000" .
  define w where "w = \<mu> / p'"
  have d: "\<bar>m / P' - m / P\<bar> \<le> w / 2000000000"
    using d0 by (simp only: w_def)
  have e2': "\<bar>C - m / P'\<bar> \<le> w / 2000000000"
    using e2 by (simp add: abs_divide p'_def \<mu>_def w_def)
  have "\<bar>C - m / P\<bar> \<le> \<bar>C - m / P'\<bar> + \<bar>m / P' - m / P\<bar>"
    by (rule abs_triangle_ineq4 [of "C - m / P'" "m / P - m / P'", simplified abs_minus_commute [of "m / P"], simplified])
  with e2' d have "\<bar>C - m / P\<bar> \<le> w / 1000000000"
    by linarith
  then have t: "\<bar>C - m / P\<bar> \<le> (\<mu> / p') / 1000000000"
    by (simp only: w_def)
  have "\<mu> / p' \<le> \<mu> / (p * (1999999999 / 2000000000))"
    using pp by (intro divide_left_mono) simp_all
  then have "(\<mu> / p') / 1000000000 \<le> (\<mu> / (p * (1999999999 / 2000000000))) / 1000000000"
    by (intro divide_right_mono) simp_all
  also have "\<dots> = (\<mu> / p) * (2 / 1999999999)"
    by simp
  also have "\<dots> \<le> (\<mu> / p) * (11 / 10 ^ 10)"
    using pp by (intro mult_left_mono) simp_all
  finally have "(\<mu> / p') / 1000000000 \<le> \<bar>m / P\<bar> * (11 / 10 ^ 10)"
    by (simp add: abs_divide p_def \<mu>_def)
  with t show ?thesis by (rule order_trans)
qed

lemma py_round_err: "\<bar>py_round x 2 - x\<bar> \<le> 1 / 200"
proof -
  have "\<bar>of_int (round_half_even (x * 100)) - x * 100\<bar> / 100 \<le> (1 / 2) / 100"
    using round_half_even_err [of "x * 100"] by (intro divide_right_mono) simp_all
  moreover have "\<bar>of_int (round_half_even (x * 100)) - x * 100\<bar> / 100 =
      \<bar>of_int (round_half_even (x * 100)) / 100 - x\<bar>"
  proof -
    have "of_int (round_half_even (x * 100)) / 100 - x =
          (of_int (round_half_even (x * 100)) - x * 100) / 100"
      by (simp add: field_simps)
    then have "\<bar>of_int (round_half_even (x * 100)) / 100 - x\<bar> =
          \<bar>(of_int (round_half_even (x * 100)) - x * 100) / 100\<bar>"
      by (rule arg_cong)
    also have "\<dots> = \<bar>of_int (round_half_even (x * 100)) - x * 100\<bar> / \<bar>100\<bar>"
      by (rule abs_divide)
    finally show ?thesis by simp
  qed
  ultimately show ?thesis
    by (simp add: py_round_def)
qed

lemma decimal_mul_eq_0_iff: "decimal_mul x y = 0 \<longleftrightarrow> x = 0 \<or> y = 0"
  by (simp add: decimal_mul_def decimal_round_eq_0_iff)

lemma normalize_position_zero:
  assumes "rp_contracts p = 0 \<or> rp_contractSize p = 0"
  shows "normalize_position p =
           Inl (if rp_markPrice p = 0 then DivisionUndefined else DivisionByZero)"
  using assms by (simp add: normalize_position_def decimal_div_def decimal_mul_eq_0_iff Let_def)

lemma normalize_position_Inr:
  assumes "normalize_position p = Inr q"
  shows "rp_contracts p * rp_contractSize p \<noteq> 0"
    and "pos_size q = decimal_round (rp_contracts p * rp_contractSize p)"
    and "pos_current_price q =
           decimal_round (rp_markPrice p / decimal_round (rp_contracts p * rp_contractSize p))"
    and "pos_usd_size q = py_round (rp_markPrice p) 2"
proof -
  from assms have nz: "decimal_mul (rp_contracts p) (rp_contractSize p) \<noteq> 0"
    by (auto simp: normalize_position_def decimal_div_def Let_def split: if_splits)
  then show "rp_contracts p * rp_contractSize p \<noteq> 0"
    by (simp add: decimal_mul_eq_0_iff)
  from assms nz have "q =
      \<lparr>pos_pair = pair_to_ext_pair (rp_symbol p),
       pos_side = rp_side p,
       pos_size = decimal_mul (rp_contracts p) (rp_contractSize p),
       pos_usd_size = py_round (rp_markPrice p) 2,
       pos_entry_price = rp_entryPrice p,
       pos_current_price =
         decimal_round (rp_markPrice p / decimal_mul (rp_contracts p) (rp_contractSize p)),
       pos_unrealizedPnl = rp_unrealizedPnl p,
       pos_liquidation_price = value_or_zero (rp_liquidationPrice p),
       pos_margin_mode = rp_info_margin_type p,
       pos_leverage = rp_leverage p,
       pos_hedge_mode = (rp_hedged p = Some True),
       pos_open_timestamp = rp_info_open_timestamp p,
       pos_take_profit_price = value_or_zero (rp_takeProfitPrice p),
       pos_stop_loss_price = value_or_zero (rp_stopLossPrice p)\<rparr>"
    by (simp add: normalize_position_def decimal_div_def Let_def)
  then show "pos_size q = decimal_round (rp_contracts p * rp_contractSize p)"
    and "pos_current_price q =
           decimal_round (rp_markPrice p / decimal_round (rp_contracts p * rp_contractSize p))"
    and "pos_usd_size q = py_round (rp_markPrice p) 2"
    by (simp_all add: decimal_mul_def)
qed

lemma positions_loop_Inr:
  "positions_loop resp acc = Inr ps \<Longrightarrow>
     \<exists>qs. ps = acc @ qs \<and> list_all2 (\<lambda>p q. normalize_position p = Inr q) resp qs"
proof (induction resp arbitrary: acc)
  case Nil
  then show ?case by simp
next
  case (Cons p resp)
  from Cons.prems obtain q where q: "normalize_position p = Inr q"
    and rest: "positions_loop resp (acc @ [q]) = Inr ps"
    by (auto split: sum.splits)
  from Cons.IH [OF rest] obtain qs where "ps = (acc @ [q]) @ qs"
    and "list_all2 (\<lambda>p q. normalize_position p = Inr q) resp qs"
    by blast
  with q show ?case by (intro exI [of _ "q # qs"]) simp
qed

lemma positions_loop_zero:
  "find (\<lambda>p. rp_contracts p = 0 \<or> rp_contractSize p = 0) resp = Some p0 \<Longrightarrow>
   positions_loop resp acc =
     Inl (if rp_markPrice p0 = 0 then DivisionUndefined else DivisionByZero)"
proof (induction resp arbitrary: acc)
  case Nil
  then show ?case by simp
next
  case (Cons p resp)
  show ?case
  proof (cases "rp_contracts p = 0 \<or> rp_contractSize p = 0")
    case True
    with Cons.prems have "p0 = p" by simp
    with True show ?thesis by (simp add: normalize_position_zero)
  next
    case False
    with Cons.prems have f: "find (\<lambda>p. rp_contracts p = 0 \<or> rp_contractSize p = 0) resp = Some p0"
      by simp
    from False obtain q where "normalize_position p = Inr q"
      by (simp add: normalize_position_def decimal_div_def decimal_mul_eq_0_iff Let_def)
    with Cons.IH [OF f] show ?thesis by simp
  qed
qed

lemma get_open_positions_fst:
  "session_fetch_positions self (map ext_pair_to_pair ext_pairs) = Inr resp \<Longrightarrow>
   fst (get_open_positions self ext_pairs) = positions_loop resp []"
  by (simp add: get_open_positions_def Let_def fst_and_then)

lemma example_position_normalize:
  "normalize_position example_position = Inr example_position_normalized"
proof -
  have a: "decimal_round (5 / 1000) = 1 / 200" by code_simp
  have b: "decimal_round (250126 / 1000 / (1 / 200)) = 500252 / 10" by code_simp
  have c: "py_round (250126 / 1000) 2 = 25013 / 100" by code_simp
  have d: "pair_to_ext_pair ''BTC-USDT:USDT'' = ''BTC-USDT''"
    by (simp add: pair_to_ext_pair_def)
  have a': "decimal_round (1 / 200) = 1 / 200" using a by simp
  have b': "decimal_round (250126 / 5) = 250126 / 5" using b by simp
  have c': "py_round (125063 / 500) 2 = 25013 / 100" using c by simp
  show ?thesis
    by (simp add: normalize_position_def example_position_def example_position_normalized_def
        decimal_div_def decimal_mul_def value_or_zero_def Let_def a' b' c' d)
qed

text \<open>
  C1. For every position that \<open>get_open_positions\<close> returns, with \<open>contracts = c\<close>,
  \<open>contractSize = s\<close> and \<open>markPrice = m\<close> in the raw answer, the \<open>size\<close> of the
  record is \<open>c * s\<close> and its \<open>current_price\<close> is \<open>m / (c * s)\<close> within the tolerance
  of the arithmetic: \<open>size\<close> is the product rounded to 10 significant digits, within a
  relative error of \<open>5 * 10 ^ -10\<close>, and \<open>current_price\<close> is the rounded quotient of
  \<open>m\<close> by that \<open>size\<close>, within a relative error of \<open>1.1 * 10 ^ -9\<close>.
\<close>

theorem get_open_positions_size_consistency:
  assumes "session_fetch_positions self (map ext_pair_to_pair ext_pairs) = Inr resp"
    and "fst (get_open_positions self ext_pairs) = Inr ps"
    and "i < length resp"
    and "c = rp_contracts (resp ! i)" and "s = rp_contractSize (resp ! i)"
    and "m = rp_markPrice (resp ! i)"
  shows "length ps = length resp \<and> c * s \<noteq> 0 \<and>
         pos_size (ps ! i) = decimal_round (c * s) \<and>
         pos_current_price (ps ! i) = decimal_round (m / decimal_round (c * s)) \<and>
         \<bar>pos_size (ps ! i) - c * s\<bar> \<le> \<bar>c * s\<bar> / (2 * 10 ^ 9) \<and>
         \<bar>pos_current_price (ps ! i) - m / (c * s)\<bar> \<le> \<bar>m / (c * s)\<bar> * (11 / 10 ^ 10)"
proof -
  from assms(1,2) have "positions_loop resp [] = Inr ps"
    by (simp add: get_open_positions_fst)
  then have all: "list_all2 (\<lambda>p q. normalize_position p = Inr q) resp ps"
    by (auto dest: positions_loop_Inr)
  then have len: "length ps = length resp"
    by (simp add: list_all2_lengthD)
  have q: "normalize_position (resp ! i) = Inr (ps ! i)"
    using list_all2_nthD [OF all assms(3)] by simp
  note n = normalize_position_Inr [OF q, folded assms(4-6)]
  have e1: "\<bar>decimal_round (c * s) - c * s\<bar> \<le> \<bar>c * s\<bar> / (2 * 10 ^ 9)"
    by (rule decimal_round_err)
  have e2: "\<bar>decimal_round (m / decimal_round (c * s)) - m / decimal_round (c * s)\<bar>
      \<le> \<bar>m / decimal_round (c * s)\<bar> / (2 * 10 ^ 9)"
    by (rule decimal_round_err)
  from quotient_error [OF n(1) e1 e2] e1 len n show ?thesis
    by simp
qed

theorem get_open_positions_size_consistency_witness:
  "fst (get_open_positions
          (example_adapter\<lparr>session_fetch_positions := (\<lambda>pairs. Inr [example_position])\<rparr>)
          [''BTC-USDT'']) = Inr [example_position_normalized] \<and>
   pos_size example_position_normalized = decimal_round (5 * (1 / 1000)) \<and>
   pos_current_price example_position_normalized =
     decimal_round (250126 / 1000 / decimal_round (5 * (1 / 1000))) \<and>
   \<bar>pos_size example_position_normalized - 5 * (1 / 1000)\<bar> \<le> \<bar>5 * (1 / 1000)\<bar> / (2 * 10 ^ 9) \<and>
   \<bar>pos_current_price example_position_normalized - 250126 / 1000 / (5 * (1 / 1000))\<bar>
     \<le> \<bar>250126 / 1000 / (5 * (1 / 1000))\<bar> * (11 / 10 ^ 10)"
proof -
  let ?A = "example_adapter\<lparr>session_fetch_positions := (\<lambda>pairs. Inr [example_position])\<rparr>"
  have f: "session_fetch_positions ?A (map ext_pair_to_pair [''BTC-USDT'']) = Inr [example_position]"
    by simp
  have g: "fst (get_open_positions ?A [''BTC-USDT'']) = Inr [example_position_normalized]"
    by (simp add: get_open_positions_fst [OF f] example_position_normalize)
  have i: "0 < length [example_position]" by simp
  have c: "5 = rp_contracts ([example_position] ! 0)"
    and s: "1 / 1000 = rp_contractSize ([example_position] ! 0)"
    and m: "250126 / 1000 = rp_markPrice ([example_position] ! 0)"
    by (simp_all add: example_position_def)
  have n: "[example_position_normalized] ! 0 = example_position_normalized" by simp
  from get_open_positions_size_consistency [OF f g i c s m] g show ?thesis
    unfolding n by blast
qed

text \<open>
  C9. When the raw answer contains a position whose \<open>contracts\<close> or \<open>contractSize\<close>
  is zero, \<open>get_open_positions\<close> returns no record: it fails in the division that gives
  \<open>current_price\<close> of the first such position. The exception is the division by zero of
  the decimal arithmetic: \<open>DivisionByZero\<close> for a \<open>markPrice\<close> other than zero, and
  the undefined division \<open>0 / 0\<close> for a \<open>markPrice\<close> of zero.
\<close>

theorem get_open_positions_zero_contracts:
  assumes "session_fetch_positions self (map ext_pair_to_pair ext_pairs) = Inr resp"
    and "p \<in> set resp"
    and "rp_contracts p = 0 \<or> rp_contractSize p = 0"
  shows "\<exists>p0. find (\<lambda>p. rp_contracts p = 0 \<or> rp_contractSize p = 0) resp = Some p0 \<and>
           fst (get_open_positions self ext_pairs) =
             Inl (if rp_markPrice p0 = 0 then DivisionUndefined else DivisionByZero)"
proof -
  from assms(2,3) obtain p0
    where "find (\<lambda>p. rp_contracts p = 0 \<or> rp_contractSize p = 0) resp = Some p0"
    by (cases "find (\<lambda>p. rp_contracts p = 0 \<or> rp_contractSize p = 0) resp")
      (auto simp: find_None_iff)
  with assms(1) show ?thesis
    by (simp add: get_open_positions_fst positions_loop_zero)
qed

theorem get_open_positions_zero_contracts_witness:
  "fst (get_open_positions
          (example_adapter\<lparr>session_fetch_positions :=
             (\<lambda>pairs. Inr [example_position, example_position\<lparr>rp_contracts := 0\<rparr>])\<rparr>)
          [''BTC-USDT'']) = Inl DivisionByZero \<and>
   fst (get_open_positions
          (example_adapter\<lparr>session_fetch_positions :=
             (\<lambda>pairs. Inr [example_position\<lparr>rp_contracts := 0, rp_markPrice := 0\<rparr>])\<rparr>)
          [''BTC-USDT'']) = Inl DivisionUndefined"
proof -
  let ?p = "example_position\<lparr>rp_contracts := 0\<rparr>"
  let ?q = "example_position\<lparr>rp_contracts := 0, rp_markPrice := 0\<rparr>"
  let ?A = "example_adapter\<lparr>session_fetch_positions := (\<lambda>pairs. Inr [example_position, ?p])\<rparr>"
  let ?B = "example_adapter\<lparr>session_fetch_positions := (\<lambda>pairs. Inr [?q])\<rparr>"
  have fA: "session_fetch_positions ?A (map ext_pair_to_pair [''BTC-USDT'']) =
      Inr [example_position, ?p]"
    by simp
  have fB: "session_fetch_positions ?B (map ext_pair_to_pair [''BTC-USDT'']) = Inr [?q]"
    by simp
  have inA: "?p \<in> set [example_position, ?p]" by simp
  have inB: "?q \<in> set [?q]" by simp
  have zA: "rp_contracts ?p = 0 \<or> rp_contractSize ?p = 0" by simp
  have zB: "rp_contracts ?q = 0 \<or> rp_contractSize ?q = 0" by simp
  have findA: "find (\<lambda>p. rp_contracts p = 0 \<or> rp_contractSize p = 0) [example_position, ?p] = Some ?p"
    by (simp add: example_position_def)
  have findB: "find (\<lambda>p. rp_contracts p = 0 \<or> rp_contractSize p = 0) [?q] = Some ?q"
    by simp
  have mA: "rp_markPrice ?p \<noteq> 0" by (simp add: example_position_def)
  have mB: "rp_markPrice ?q = 0" by simp
  from get_open_positions_zero_contracts [OF fA inA zA] findA mA
  have "fst (get_open_positions ?A [''BTC-USDT'']) = Inl DivisionByZero"
    by auto
  moreover from get_open_positions_zero_contracts [OF fB inB zB] findB mB
  have "fst (get_open_positions ?B [''BTC-USDT'']) = Inl DivisionUndefined"
    by auto
  ultimately show ?thesis by blast
qed

text \<open>
  C10. For every position that \<open>get_open_positions\<close> returns, \<open>usd_size\<close> is the
  \<open>markPrice\<close> of the raw answer rounded to 2 decimal places, so within \<open>0.005\<close> of
  it. It is not a product of the size and a price: every raw position with the same
  \<open>markPrice\<close> gets the same \<open>usd_size\<close>, whatever its contracts, its contract size
  and its other prices.
\<close>

theorem get_open_positions_usd_size:
  assumes "session_fetch_positions self (map ext_pair_to_pair ext_pairs) = Inr resp"
    and "fst (get_open_positions self ext_pairs) = Inr ps"
    and "i < length resp"
  shows "pos_usd_size (ps ! i) = py_round (rp_markPrice (resp ! i)) 2 \<and>
         \<bar>pos_usd_size (ps ! i) - rp_markPrice (resp ! i)\<bar> \<le> 1 / 200 \<and>
         (\<forall>p' q'. rp_markPrice p' = rp_markPrice (resp ! i) \<and> normalize_position p' = Inr q' \<longrightarrow>
            pos_usd_size q' = pos_usd_size (ps ! i))"
proof -
  from assms(1,2) have "positions_loop resp [] = Inr ps"
    by (simp add: get_open_positions_fst)
  then have all: "list_all2 (\<lambda>p q. normalize_position p = Inr q) resp ps"
    by (auto dest: positions_loop_Inr)
  have q: "normalize_position (resp ! i) = Inr (ps ! i)"
    using list_all2_nthD [OF all assms(3)] by simp
  have u: "pos_usd_size (ps ! i) = py_round (rp_markPrice (resp ! i)) 2"
    by (rule normalize_position_Inr(4) [OF q])
  show ?thesis
    using py_round_err [of "rp_markPrice (resp ! i)"]
    by (auto simp: u dest: normalize_position_Inr(4))
qed

theorem get_open_positions_usd_size_witness:
  "fst (get_open_positions
          (example_adapter\<lparr>session_fetch_positions := (\<lambda>pairs. Inr [example_position])\<rparr>)
          [''BTC-USDT'']) = Inr [example_position_normalized] \<and>
   pos_usd_size example_position_normalized = py_round (250126 / 1000) 2 \<and>
   \<bar>pos_usd_size example_position_normalized - 250126 / 1000\<bar> \<le> 1 / 200 \<and>
   normalize_position (example_position\<lparr>rp_contracts := 7, rp_entryPrice := 1\<rparr>) =
     Inr (example_position_normalized
            \<lparr>pos_size := 7 / 1000, pos_current_price := 3573228571 / 100000,
             pos_entry_price := 1\<rparr>) \<and>
   pos_usd_size (example_position_normalized
            \<lparr>pos_size := 7 / 1000, pos_current_price := 3573228571 / 100000,
             pos_entry_price := 1\<rparr>) =
     pos_usd_size example_position_normalized"
proof -
  let ?A = "example_adapter\<lparr>session_fetch_positions := (\<lambda>pairs. Inr [example_position])\<rparr>"
  let ?p' = "example_position\<lparr>rp_contracts := 7, rp_entryPrice := 1\<rparr>"
  let ?q' = "example_position_normalized
            \<lparr>pos_size := 7 / 1000, pos_current_price := 3573228571 / 100000,
             pos_entry_price := 1\<rparr>"
  have f: "session_fetch_positions ?A (map ext_pair_to_pair [''BTC-USDT'']) = Inr [example_position]"
    by simp
  have g: "fst (get_open_positions ?A [''BTC-USDT'']) = Inr [example_position_normalized]"
    by (simp add: get_open_positions_fst [OF f] example_position_normalize)
  have i: "0 < length [example_position]" by simp
  have n: "[example_position_normalized] ! 0 = example_position_normalized"
    "[example_position] ! 0 = example_position" by simp_all
  have mp: "rp_markPrice example_position = 250126 / 1000"
    by (simp add: example_position_def)
  have a: "decimal_round (7 / 1000) = 7 / 1000" by code_simp
  have b: "decimal_round (250126 / 7) = 3573228571 / 100000" by code_simp
  have c: "py_round (125063 / 500) 2 = 25013 / 100" by code_simp
  have d: "pair_to_ext_pair ''BTC-USDT:USDT'' = ''BTC-USDT''"
    by (simp add: pair_to_ext_pair_def)
  have np: "normalize_position ?p' = Inr ?q'"
    by (simp add: normalize_position_def example_position_def example_position_normalized_def
        decimal_div_def decimal_mul_def value_or_zero_def Let_def a b c d)
  have same: "rp_markPrice ?p' = rp_markPrice example_position" by simp
  note t = get_open_positions_usd_size [OF f g i, unfolded n]
  from t have "pos_usd_size ?q' = pos_usd_size example_position_normalized"
    using same np by blast
  with t g np show ?thesis
    unfolding mp by blast
qed

subsection \<open>Orders\<close>

lemma place_order_handler:
  "fst (place_order self ext_pair side price order_size order_type reduce margin_mode leverage error) =
     (case fst (place_order_body self ext_pair side price order_size order_type reduce margin_mode
                  leverage) of
        Inl e \<Rightarrow> (if error then Inl e else Inr None)
      | Inr order \<Rightarrow> Inr order)"
  by (simp add: place_order_def fst_try_except fst_and_then split: sum.splits)

lemma place_order_body_reaches_creation:
  assumes "pair_contract_size self ext_pair = Inr contract_size"
    and "contract_size \<noteq> 0"
    and "session_amount_to_precision self (ext_pair_to_pair ext_pair)
           (decimal_round (order_size / contract_size)) = Inr amount"
  shows "fst (place_order_body self ext_pair side price order_size order_type reduce margin_mode
                leverage) =
         (case session_create_order self
                 \<lparr>rq_symbol = ext_pair_to_pair ext_pair, rq_type = order_type, rq_side = side,
                  rq_amount = amount, rq_price = price, rq_reduceOnly = reduce,
                  rq_marginMode = margin_mode, rq_leverage = leverage\<rparr> of
            Inl e \<Rightarrow> Inl e
          | Inr resp \<Rightarrow>
              (case fst (get_order_by_id self (ro_id resp) (pair_to_ext_pair (ro_symbol resp))) of
                 Inl e \<Rightarrow> Inl e
               | Inr order \<Rightarrow> Inr (Some order)))"
  using assms
  by (simp add: place_order_body_def fst_and_then decimal_div_def Let_def split: sum.splits)

text \<open>
  C3. When the creation of the order or the lookup that follows it fails with an
  exception \<open>e\<close>, \<open>place_order\<close> with \<open>error = True\<close> raises \<open>e\<close>, and with
  \<open>error = False\<close> it raises nothing and returns \<open>None\<close>.
\<close>

theorem place_order_dual_mode:
  assumes "pair_contract_size self ext_pair = Inr contract_size"
    and "contract_size \<noteq> 0"
    and "session_amount_to_precision self (ext_pair_to_pair ext_pair)
           (decimal_round (order_size / contract_size)) = Inr amount"
    and "request =
           \<lparr>rq_symbol = ext_pair_to_pair ext_pair, rq_type = order_type, rq_side = side,
            rq_amount = amount, rq_price = price, rq_reduceOnly = reduce,
            rq_marginMode = margin_mode, rq_leverage = leverage\<rparr>"
    and "session_create_order self request = Inl e \<or>
         (\<exists>resp. session_create_order self request = Inr resp \<and>
            fst (get_order_by_id self (ro_id resp) (pair_to_ext_pair (ro_symbol resp))) = Inl e)"
  shows "fst (place_order self ext_pair side price order_size order_type reduce margin_mode leverage
                True) = Inl e \<and>
         fst (place_order self ext_pair side price order_size order_type reduce margin_mode leverage
                False) = Inr None"
proof -
  have "fst (place_order_body self ext_pair side price order_size order_type reduce margin_mode
               leverage) = Inl e"
    using assms(4,5)
    by (auto simp: place_order_body_reaches_creation [OF assms(1-3)])
  then show ?thesis
    by (simp add: place_order_handler)
qed

theorem place_order_dual_mode_witness:
  "fst (place_order
          (example_adapter\<lparr>session_create_order := (\<lambda>request. Inl (ExchangeError ''rejected''))\<rparr>)
          ''BTC-USDT'' ''buy'' 50000 (5 / 1000) ''limit'' False ''cross'' 1 True) =
     Inl (ExchangeError ''rejected'') \<and>
   fst (place_order
          (example_adapter\<lparr>session_create_order := (\<lambda>request. Inl (ExchangeError ''rejected''))\<rparr>)
          ''BTC-USDT'' ''buy'' 50000 (5 / 1000) ''limit'' False ''cross'' 1 False) = Inr None \<and>
   fst (place_order
          (example_adapter\<lparr>session_fetch_order := (\<lambda>order_id pair. Inl (ExchangeError ''not found''))\<rparr>)
          ''BTC-USDT'' ''buy'' 50000 (5 / 1000) ''limit'' False ''cross'' 1 True) =
     Inl (ExchangeError ''not found'') \<and>
   fst (place_order
          (example_adapter\<lparr>session_fetch_order := (\<lambda>order_id pair. Inl (ExchangeError ''not found''))\<rparr>)
          ''BTC-USDT'' ''buy'' 50000 (5 / 1000) ''limit'' False ''cross'' 1 False) = Inr None"
proof -
  let ?A = "example_adapter\<lparr>session_create_order := (\<lambda>request. Inl (ExchangeError ''rejected''))\<rparr>"
  let ?B = "example_adapter\<lparr>session_fetch_order := (\<lambda>order_id pair. Inl (ExchangeError ''not found''))\<rparr>"
  let ?rq = "\<lparr>rq_symbol = ext_pair_to_pair ''BTC-USDT'', rq_type = ''limit'', rq_side = ''buy'',
      rq_amount = ''5'', rq_price = 50000, rq_reduceOnly = False, rq_marginMode = ''cross'',
      rq_leverage = 1\<rparr>"
  have csA: "pair_contract_size ?A ''BTC-USDT'' = Inr (1 / 1000)"
    by (simp add: pair_contract_size_def get_pair_info_def example_adapter_def example_market_def
        ext_pair_to_pair_def)
  have csB: "pair_contract_size ?B ''BTC-USDT'' = Inr (1 / 1000)"
    by (simp add: pair_contract_size_def get_pair_info_def example_adapter_def example_market_def
        ext_pair_to_pair_def)
  have nz: "(1 / 1000 :: rat) \<noteq> 0" by simp
  have apA: "session_amount_to_precision ?A (ext_pair_to_pair ''BTC-USDT'')
      (decimal_round (5 / 1000 / (1 / 1000))) = Inr ''5''"
    by (simp add: example_adapter_def)
  have apB: "session_amount_to_precision ?B (ext_pair_to_pair ''BTC-USDT'')
      (decimal_round (5 / 1000 / (1 / 1000))) = Inr ''5''"
    by (simp add: example_adapter_def)
  have fA: "session_create_order ?A ?rq = Inl (ExchangeError ''rejected'') \<or>
     (\<exists>resp. session_create_order ?A ?rq = Inr resp \<and>
        fst (get_order_by_id ?A (ro_id resp) (pair_to_ext_pair (ro_symbol resp))) =
          Inl (ExchangeError ''rejected''))"
    by simp
  have "fst (get_order_by_id ?B (ro_id example_order) (pair_to_ext_pair (ro_symbol example_order))) =
          Inl (ExchangeError ''not found'')"
    by (simp add: get_order_by_id_def fst_and_then pair_contract_size_def get_pair_info_def
        example_adapter_def example_market_def example_order_def ext_pair_to_pair_def
        pair_to_ext_pair_def Let_def)
  then have fB: "session_create_order ?B ?rq = Inl (ExchangeError ''not found'') \<or>
     (\<exists>resp. session_create_order ?B ?rq = Inr resp \<and>
        fst (get_order_by_id ?B (ro_id resp) (pair_to_ext_pair (ro_symbol resp))) =
          Inl (ExchangeError ''not found''))"
    by (simp add: example_adapter_def)
  from place_order_dual_mode [OF csA nz apA refl fA] place_order_dual_mode [OF csB nz apB refl fB]
  show ?thesis by simp
qed

text \<open>
  C8, in the form that holds. For an order fetched by \<open>get_order_by_id\<close> with the contract size \<open>s\<close>
  of the pair, the \<open>size\<close>, \<open>filled\<close> and \<open>remaining\<close> of the returned record are the
  raw \<open>amount\<close>, \<open>filled\<close> and \<open>remaining\<close> multiplied by \<open>s\<close> and rounded to the 10
  significant digits of the decimal context, hence within a relative error of
  \<open>5 * 10 ^ -10\<close> of the products; \<open>reduce\<close> is true exactly when the numeric side
  code of the raw answer is 2 or 3.
\<close>

theorem get_order_by_id_conversion:
  assumes "pair_contract_size self ext_pair = Inr s"
    and "session_fetch_order self order_id (ext_pair_to_pair ext_pair) = Inr resp"
  shows "\<exists>order. fst (get_order_by_id self order_id ext_pair) = Inr order \<and>
           ord_size order = decimal_round (ro_amount resp * s) \<and>
           ord_filled order = decimal_round (ro_filled resp * s) \<and>
           ord_remaining order = decimal_round (ro_remaining resp * s) \<and>
           \<bar>ord_size order - ro_amount resp * s\<bar> \<le> \<bar>ro_amount resp * s\<bar> / (2 * 10 ^ 9) \<and>
           \<bar>ord_filled order - ro_filled resp * s\<bar> \<le> \<bar>ro_filled resp * s\<bar> / (2 * 10 ^ 9) \<and>
           \<bar>ord_remaining order - ro_remaining resp * s\<bar> \<le> \<bar>ro_remaining resp * s\<bar> / (2 * 10 ^ 9) \<and>
           (ord_reduce order \<longleftrightarrow> ro_info_side resp \<in> {2, 3})"
  using assms decimal_round_err
  by (simp add: get_order_by_id_def fst_and_then Let_def decimal_mul_def)

theorem get_order_by_id_conversion_witness:
  "\<exists>order. fst (get_order_by_id example_adapter ''42'' ''BTC-USDT'') = Inr order \<and>
     ord_size order = decimal_round (5 * (1 / 1000)) \<and>
     ord_filled order = decimal_round (2 * (1 / 1000)) \<and>
     ord_remaining order = decimal_round (3 * (1 / 1000)) \<and>
     \<bar>ord_size order - 5 * (1 / 1000)\<bar> \<le> \<bar>5 * (1 / 1000)\<bar> / (2 * 10 ^ 9) \<and>
     \<bar>ord_filled order - 2 * (1 / 1000)\<bar> \<le> \<bar>2 * (1 / 1000)\<bar> / (2 * 10 ^ 9) \<and>
     \<bar>ord_remaining order - 3 * (1 / 1000)\<bar> \<le> \<bar>3 * (1 / 1000)\<bar> / (2 * 10 ^ 9) \<and>
     (ord_reduce order \<longleftrightarrow> (1 :: int) \<in> {2, 3})"
proof -
  have cs: "pair_contract_size example_adapter ''BTC-USDT'' = Inr (1 / 1000)"
    by (simp add: pair_contract_size_def get_pair_info_def example_adapter_def example_market_def
        ext_pair_to_pair_def)
  have fo: "session_fetch_order example_adapter ''42'' (ext_pair_to_pair ''BTC-USDT'') =
      Inr example_order"
    by (simp add: example_adapter_def)
  from get_order_by_id_conversion [OF cs fo] show ?thesis
    by (simp add: example_order_def)
qed

text \<open>
  The products themselves are not what is returned: an amount of 12345678901 contracts
  of size 1 gives the size 12345678900.
\<close>

theorem get_order_by_id_size_counterexample:
  "pair_contract_size
     (example_adapter
        \<lparr>market := Some [''BTC-USDT:USDT'' \<mapsto> \<lparr>contractSize = 1\<rparr>],
         session_fetch_order := (\<lambda>order_id pair. Inr (example_order\<lparr>ro_amount := 12345678901\<rparr>))\<rparr>)
     ''BTC-USDT'' = Inr 1 \<and>
   map_sum id ord_size
     (fst (get_order_by_id
        (example_adapter
           \<lparr>market := Some [''BTC-USDT:USDT'' \<mapsto> \<lparr>contractSize = 1\<rparr>],
            session_fetch_order := (\<lambda>order_id pair. Inr (example_order\<lparr>ro_amount := 12345678901\<rparr>))\<rparr>)
        ''42'' ''BTC-USDT'')) = Inr 12345678900 \<and>
   (12345678900 :: rat) \<noteq> 12345678901 * 1"
proof -
  have r: "decimal_round 12345678901 = 12345678900"
    by code_simp
  show ?thesis
    by (simp add: get_order_by_id_def fst_and_then pair_contract_size_def get_pair_info_def
        example_adapter_def example_order_def ext_pair_to_pair_def
        pair_to_ext_pair_def Let_def decimal_mul_def r)
qed

subsection \<open>Candle windows\<close>



















end
